theory Spec2Isabelle
  imports Main
begin

section \<open>JavaScript values, errors and effects\<close>

text \<open>
  The three data-fetching helpers of the blog front end (\<open>getPosts\<close> in
  \<open>src/app/page.tsx\<close>, \<open>generateStaticParams\<close> and the two versions of \<open>getPost\<close>
  in \<open>src/app/blog/page.tsx\<close>) work on the untyped value that \<open>res.json()\<close> yields.
  That value is modelled as a JavaScript value: \<open>JUndefined\<close> is what reading an absent
  property gives, the other constructors are the JSON values. An object is the list of
  its own properties (keys distinct, as in a JavaScript object). The code never
  computes with a number; it can only test one for truthiness, so numbers are integers
  here.
\<close>

datatype jsval =
    JUndefined
  | JNull
  | JBool bool
  | JNum int
  | JStr string
  | JArr "jsval list"
  | JObj "(string \<times> jsval) list"

text \<open>A thrown value: the error objects that \<open>fetch\<close>, \<open>res.json()\<close> and a failed
  property access produce. Each carries its \<open>message\<close>.\<close>

datatype js_error =
    TypeError string
  | SyntaxError string
  | AbortError string

fun message :: "js_error \<Rightarrow> string" where
  "message (TypeError m) = m"
| "message (SyntaxError m) = m"
| "message (AbortError m) = m"

text \<open>The console is the observability sink: every call appends one entry.\<close>

datatype level = ConsoleLog | ConsoleWarn | ConsoleError

datatype log_arg = Val jsval | Err js_error

type_synonym log_entry = "level \<times> string \<times> log_arg list"

text \<open>
  An asynchronous computation either resolves with a value (\<open>Inr\<close>) or rejects with a
  thrown error (\<open>Inl\<close>), and leaves the console entries it wrote.
\<close>

type_synonym 'a eff = "log_entry list \<times> (js_error + 'a)"

definition resolve :: "'a \<Rightarrow> 'a eff" where
  "resolve v = ([], Inr v)"

definition lift :: "js_error + 'a \<Rightarrow> 'a eff" where
  "lift c = ([], c)"

definition and_then :: "'a eff \<Rightarrow> ('a \<Rightarrow> 'b eff) \<Rightarrow> 'b eff" where
  "and_then m f =
     (case m of
        (l, Inl e) \<Rightarrow> (l, Inl e)
      | (l, Inr v) \<Rightarrow> (case f v of (l', r) \<Rightarrow> (l @ l', r)))"

definition try_catch :: "'a eff \<Rightarrow> (js_error \<Rightarrow> 'a eff) \<Rightarrow> 'a eff" where
  "try_catch m h =
     (case m of
        (l, Inl e) \<Rightarrow> (case h e of (l', r) \<Rightarrow> (l @ l', r))
      | (l, Inr v) \<Rightarrow> (l, Inr v))"

definition console :: "level \<Rightarrow> string \<Rightarrow> log_arg list \<Rightarrow> unit eff" where
  "console lvl msg args = ([(lvl, msg, args)], Inr ())"

subsection \<open>The operators the helpers use\<close>

text \<open>Truthiness, as tested by \<open>if (v)\<close>, \<open>!v\<close> and \<open>v || w\<close>.\<close>

fun truthy :: "jsval \<Rightarrow> bool" where
  "truthy JUndefined = False"
| "truthy JNull = False"
| "truthy (JBool b) = b"
| "truthy (JNum n) = (n \<noteq> 0)"
| "truthy (JStr s) = (s \<noteq> [])"
| "truthy (JArr xs) = True"
| "truthy (JObj kvs) = True"

text \<open>
  Property access \<open>v.k\<close>, for the property names the helpers read (\<open>errors\<close>, \<open>data\<close>,
  \<open>posts\<close>, \<open>post\<close>, \<open>nodes\<close>, \<open>slug\<close>; none of them is defined on a built-in
  prototype): it throws a \<open>TypeError\<close> on \<open>undefined\<close> and \<open>null\<close>, reads an own
  property of an object, and is \<open>undefined\<close> on every other value. The message is
  the one Node's engine gives; the helpers only log it or pass it on.
\<close>

definition cannot_read :: "string \<Rightarrow> string \<Rightarrow> string" where
  "cannot_read what k =
     ''Cannot read properties of '' @ what @ '' (reading '' @ [CHR 0x27] @ k @ [CHR 0x27] @ '')''"

fun member :: "jsval \<Rightarrow> string \<Rightarrow> js_error + jsval" where
  "member JUndefined k = Inl (TypeError (cannot_read ''undefined'' k))"
| "member JNull k = Inl (TypeError (cannot_read ''null'' k))"
| "member (JObj kvs) k = Inr (case map_of kvs k of None \<Rightarrow> JUndefined | Some v \<Rightarrow> v)"
| "member v k = Inr JUndefined"

text \<open>Optional chaining \<open>v?.k\<close>: \<open>undefined\<close> when \<open>v\<close> is \<open>undefined\<close> or \<open>null\<close>.\<close>

definition opt_member :: "jsval \<Rightarrow> string \<Rightarrow> js_error + jsval" where
  "opt_member v k = (if v = JUndefined \<or> v = JNull then Inr JUndefined else member v k)"

text \<open>\<open>a || b\<close>.\<close>

definition or_else :: "jsval \<Rightarrow> jsval \<Rightarrow> jsval" where
  "or_else a b = (if truthy a then a else b)"

text \<open>
  \<open>v.map(f)\<close>: only an array has a callable \<open>map\<close>; on any other value the call
  throws, and the engine's message quotes the callee expression \<open>callee\<close> as the
  source writes it. The callback runs on the elements from left to right and the first
  throw ends the call.
\<close>

fun traverse :: "('a \<Rightarrow> js_error + 'b) \<Rightarrow> 'a list \<Rightarrow> js_error + 'b list" where
  "traverse f [] = Inr []"
| "traverse f (x # xs) =
     (case f x of
        Inl e \<Rightarrow> Inl e
      | Inr y \<Rightarrow> (case traverse f xs of Inl e \<Rightarrow> Inl e | Inr ys \<Rightarrow> Inr (y # ys)))"

fun js_map :: "string \<Rightarrow> jsval \<Rightarrow> (jsval \<Rightarrow> js_error + jsval) \<Rightarrow> js_error + jsval" where
  "js_map callee JUndefined f = Inl (TypeError (cannot_read ''undefined'' ''map''))"
| "js_map callee JNull f = Inl (TypeError (cannot_read ''null'' ''map''))"
| "js_map callee (JArr xs) f =
     (case traverse f xs of Inl e \<Rightarrow> Inl e | Inr ys \<Rightarrow> Inr (JArr ys))"
| "js_map callee v f = Inl (TypeError (callee @ '' is not a function''))"

section \<open>The wire: requests, responses, the network\<close>

text \<open>
  The GraphQL documents of the source, as data: the root field with its argument and
  the selection set. \<open>PostsFirst n fs\<close> is \<open>posts(first: n) { nodes { fs } }\<close> and
  \<open>PostBySlug fs\<close> is \<open>post(id: $slug, idType: SLUG) { fs }\<close>.
\<close>

datatype category_field = C_name | C_slug

datatype post_field =
    F_id
  | F_slug
  | F_title
  | F_content
  | F_excerpt
  | F_date
  | F_author
  | F_featuredImage
  | F_categories "category_field list"

datatype query_doc =
    PostsFirst nat "post_field list"
  | PostBySlug "post_field list"

datatype cache_policy = DefaultCache | Revalidate nat | NoStore

record request =
  url :: string
  http_method :: string
  headers :: "(string \<times> string) list"
  query :: query_doc
  variables :: "(string \<times> string) list"
  caching :: cache_policy

text \<open>A response is what its \<open>json()\<close> settles to: the parsed body, or a thrown error.\<close>

datatype response = Response "js_error + jsval"

text \<open>The network answers a request with a response, or \<open>fetch\<close> rejects.\<close>

type_synonym network = "request \<Rightarrow> js_error + response"

definition fetch :: "network \<Rightarrow> request \<Rightarrow> response eff" where
  "fetch net req = lift (net req)"

fun res_json :: "response \<Rightarrow> jsval eff" where
  "res_json (Response r) = lift r"

definition WORDPRESS_GRAPHQL_ENDPOINT :: string where
  "WORDPRESS_GRAPHQL_ENDPOINT = ''https://dev-dp-wp-ap.pantheonsite.io/wp/graphql''"

definition GET_POSTS_QUERY :: query_doc where
  "GET_POSTS_QUERY =
     PostsFirst 12
       [F_id, F_slug, F_title, F_excerpt, F_date, F_author, F_featuredImage,
        F_categories [C_name, C_slug]]"

definition GET_POST_SLUGS_QUERY :: query_doc where
  "GET_POST_SLUGS_QUERY = PostsFirst 100 [F_slug]"

definition GET_SINGLE_POST_QUERY :: query_doc where
  "GET_SINGLE_POST_QUERY =
     PostBySlug
       [F_id, F_title, F_content, F_date, F_excerpt, F_author, F_featuredImage,
        F_categories [C_name]]"

definition post_to :: "query_doc \<Rightarrow> (string \<times> string) list \<Rightarrow> cache_policy \<Rightarrow> request" where
  "post_to q vars c =
     \<lparr> url = WORDPRESS_GRAPHQL_ENDPOINT,
       http_method = ''POST'',
       headers = [(''Content-Type'', ''application/json'')],
       query = q,
       variables = vars,
       caching = c \<rparr>"

section \<open>The listing page: \<open>getPosts\<close>\<close>

definition getPosts_request :: request where
  "getPosts_request = post_to GET_POSTS_QUERY [] (Revalidate 60)"

definition getPosts :: "network \<Rightarrow> jsval eff" where
  "getPosts net =
     try_catch
       (and_then (fetch net getPosts_request) (\<lambda>res.
        and_then (res_json res) (\<lambda>json.
        and_then (lift (member json ''errors'')) (\<lambda>errors.
        if truthy errors then
          and_then (console ConsoleError ''GraphQL Errors:'' [Val errors]) (\<lambda>_.
          resolve (JArr []))
        else
          and_then (lift (member json ''data'')) (\<lambda>d.
          and_then (lift (member d ''posts'')) (\<lambda>ps.
          lift (member ps ''nodes'')))))))
       (\<lambda>err.
          and_then (console ConsoleError ''Fetch Error:'' [Err err]) (\<lambda>_.
          resolve (JArr [])))"

section \<open>The detail page: \<open>generateStaticParams\<close> and \<open>getPost\<close>\<close>

definition generateStaticParams_request :: request where
  "generateStaticParams_request = post_to GET_POST_SLUGS_QUERY [] DefaultCache"

definition generateStaticParams :: "network \<Rightarrow> jsval eff" where
  "generateStaticParams net =
     try_catch
       (and_then (fetch net generateStaticParams_request) (\<lambda>res.
        and_then (res_json res) (\<lambda>json.
        and_then (lift (member json ''data'')) (\<lambda>d.
        and_then (lift (opt_member d ''posts'')) (\<lambda>ps.
        and_then (lift (opt_member ps ''nodes'')) (\<lambda>ns.
        if \<not> truthy ns then
          and_then (console ConsoleWarn
                      ''[NextWP] No posts found during static generation.'' []) (\<lambda>_.
          resolve (JArr []))
        else
          and_then (lift (member json ''data'')) (\<lambda>d'.
          and_then (lift (member d' ''posts'')) (\<lambda>ps'.
          and_then (lift (member ps' ''nodes'')) (\<lambda>ns'.
          lift (js_map ''json.data.posts.nodes.map'' ns' (\<lambda>p.
            case member p ''slug'' of
              Inl e \<Rightarrow> Inl e
            | Inr s \<Rightarrow> Inr (JObj [(''slug'', s)]))))))))))))
       (\<lambda>err.
          and_then (console ConsoleError
                      ''[NextWP] Error fetching slugs for SSG:'' [Err err]) (\<lambda>_.
          resolve (JArr [])))"

definition getPost_request :: "string \<Rightarrow> cache_policy \<Rightarrow> request" where
  "getPost_request slug c = post_to GET_SINGLE_POST_QUERY [(''slug'', slug)] c"

definition getPost :: "network \<Rightarrow> string \<Rightarrow> jsval eff" where
  \<open>getPost net slug =
     and_then (console ConsoleLog
                 (''[NextWP] Fetching post for slug: "'' @ slug @ ''"...'') []) (\<lambda>_.
     try_catch
       (and_then (fetch net (getPost_request slug (Revalidate 60))) (\<lambda>res.
        and_then (res_json res) (\<lambda>json.
        and_then (lift (member json ''errors'')) (\<lambda>errors.
        if truthy errors then
          and_then (console ConsoleError
                      (''[NextWP] GraphQL Error for slug "'' @ slug @ ''":'')
                      [Val errors]) (\<lambda>_.
          resolve JNull)
        else
          and_then (lift (member json ''data'')) (\<lambda>d.
          and_then (lift (opt_member d ''post'')) (\<lambda>p.
          if \<not> truthy p then
            and_then (console ConsoleError
                        (''[NextWP] No post found for slug "'' @ slug @ ''"'') []) (\<lambda>_.
            resolve JNull)
          else
            and_then (console ConsoleLog
                        (''[NextWP] Successfully fetched "'' @ slug @ ''"'') []) (\<lambda>_.
            and_then (lift (member json ''data'')) (\<lambda>d'.
            lift (member d' ''post'')))))))))
       (\<lambda>err.
          and_then (console ConsoleError
                      (''[NextWP] Network error fetching slug "'' @ slug @ ''":'')
                      [Err err]) (\<lambda>_.
          resolve JNull)))\<close>

subsection \<open>The diagnostic version of \<open>getPost\<close>\<close>

text \<open>
  The text of the \<open>error\<close> field is either the \<open>message\<close> of a caught error or
  the string that \<open>JSON.stringify\<close> returns for the \<open>errors\<close> value. The helper
  only passes that string on, so it is kept as the call \<open>JSON_stringify v\<close> and
  not computed.
\<close>

datatype js_string = Str string | JSON_stringify jsval

record APIResponse =
  post :: jsval
  error :: "js_string option"
  debugData :: jsval

text \<open>
  The diagnostic page's \<open>getPost\<close>. The optional field \<open>error\<close> is \<open>None\<close> when
  it is \<open>undefined\<close>.
\<close>

definition getPost_debug :: "network \<Rightarrow> string \<Rightarrow> APIResponse eff" where
  "getPost_debug net slug =
     try_catch
       (and_then (fetch net (getPost_request slug NoStore)) (\<lambda>res.
        and_then (res_json res) (\<lambda>json.
        and_then (lift (member json ''data'')) (\<lambda>d.
        and_then (lift (opt_member d ''post'')) (\<lambda>p.
        and_then (lift (member json ''errors'')) (\<lambda>errors.
        resolve
          \<lparr> post = or_else p JNull,
            error = (if truthy errors then Some (JSON_stringify errors) else None),
            debugData = json \<rparr>))))))
       (\<lambda>err.
          resolve
            \<lparr> post = JNull,
              error = Some (Str (message err)),
              debugData = JObj [(''error'', JStr ''Network request failed'')] \<rparr>)"

section \<open>The content service\<close>

text \<open>
  A content item as the content service stores it: identifier, slug, title, body
  markup, excerpt, publish date, author name, optional cover image and the category
  labels (name and slug).
\<close>

record content_item =
  item_id :: string
  item_slug :: string
  item_title :: string
  item_content :: string
  item_excerpt :: string
  item_date :: string
  item_author :: string
  item_image :: "string option"
  item_categories :: "(string \<times> string) list"

fun category_json :: "string \<times> string \<Rightarrow> category_field \<Rightarrow> string \<times> jsval" where
  "category_json c C_name = (''name'', JStr (fst c))"
| "category_json c C_slug = (''slug'', JStr (snd c))"

fun field_json :: "content_item \<Rightarrow> post_field \<Rightarrow> string \<times> jsval" where
  "field_json it F_id = (''id'', JStr (item_id it))"
| "field_json it F_slug = (''slug'', JStr (item_slug it))"
| "field_json it F_title = (''title'', JStr (item_title it))"
| "field_json it F_content = (''content'', JStr (item_content it))"
| "field_json it F_excerpt = (''excerpt'', JStr (item_excerpt it))"
| "field_json it F_date = (''date'', JStr (item_date it))"
| "field_json it F_author =
     (''author'', JObj [(''node'', JObj [(''name'', JStr (item_author it))])])"
| "field_json it F_featuredImage =
     (''featuredImage'',
      case item_image it of
        None \<Rightarrow> JNull
      | Some u \<Rightarrow> JObj [(''node'', JObj [(''sourceUrl'', JStr u)])])"
| "field_json it (F_categories cfs) =
     (''categories'',
      JObj [(''nodes'', JArr (map (\<lambda>c. JObj (map (category_json c) cfs)) (item_categories it)))])"

definition select :: "post_field list \<Rightarrow> content_item \<Rightarrow> jsval" where
  "select fs it = JObj (map (field_json it) fs)"

text \<open>
  Modelled from the spec: the remote content service, which is not part of the
  repository. It follows the wire contract of the specification and the query documents
  of the source: it holds the items in its own order, answers \<open>posts(first: n)\<close> with
  at most the first \<open>n\<close> of them, answers \<open>post(id: $slug, idType: SLUG)\<close> with the
  item whose slug is exactly the variable \<open>slug\<close> (\<open>null\<close> when there is none), and
  projects every item to the fields the query selects. A query whose required variable
  is missing is answered with an \<open>errors\<close> array and no data.
\<close>

definition content_service :: "content_item list \<Rightarrow> network" where
  "content_service items req =
     Inr (Response (Inr
       (case query req of
          PostsFirst n fs \<Rightarrow>
            JObj [(''data'', JObj [(''posts'', JObj [(''nodes'',
              JArr (map (select fs) (take n items)))])])]
        | PostBySlug fs \<Rightarrow>
            (case map_of (variables req) ''slug'' of
               None \<Rightarrow>
                 JObj [(''errors'',
                   JArr [JObj [(''message'', JStr ''Variable $slug was not provided'')]])]
             | Some s \<Rightarrow>
                 JObj [(''data'', JObj [(''post'',
                   case find (\<lambda>it. item_slug it = s) items of
                     None \<Rightarrow> JNull
                   | Some it \<Rightarrow> select fs it)])]))))"

section \<open>Example responses\<close>

text \<open>
  A GraphQL response may carry partial data next to its \<open>errors\<close> array: here the
  author of the post could not be resolved, and the slug of the second node.
\<close>

definition errors_and_post :: jsval where
  "errors_and_post =
     JObj [(''errors'', JArr [JObj [(''message'', JStr ''Internal server error'')]]),
           (''data'', JObj [(''post'',
              JObj [(''id'', JStr ''cG9zdDox''), (''title'', JStr ''Hello''),
                    (''content'', JStr ''<p>Hi</p>''), (''date'', JStr ''2024-01-01T00:00:00''),
                    (''excerpt'', JStr ''<p>Hi</p>''), (''author'', JNull),
                    (''featuredImage'', JNull),
                    (''categories'', JObj [(''nodes'', JArr [])])])])]"

definition errors_and_nodes :: jsval where
  "errors_and_nodes =
     JObj [(''errors'', JArr [JObj [(''message'', JStr ''Internal server error'')]]),
           (''data'', JObj [(''posts'', JObj [(''nodes'',
              JArr [JObj [(''slug'', JStr ''hello'')], JObj [(''slug'', JNull)]])])])]"

text \<open>A success response whose \<open>posts\<close> object has no \<open>nodes\<close>.\<close>

definition nodes_missing :: jsval where
  "nodes_missing = JObj [(''data'', JObj [(''posts'', JObj [])])]"

definition answering :: "jsval \<Rightarrow> network" where
  "answering json req = Inr (Response (Inr json))"

definition unreachable :: network where
  "unreachable req = Inl (TypeError ''fetch failed'')"

definition hello_world :: content_item where
  "hello_world =
     \<lparr> item_id = ''cG9zdDox'', item_slug = ''hello-world'', item_title = ''Hello world!'',
       item_content = ''<p>Welcome.</p>'', item_excerpt = ''<p>Welcome</p>'',
       item_date = ''2024-01-01T00:00:00'', item_author = ''admin'',
       item_image = Some ''https://example.com/a.png'',
       item_categories = [(''News'', ''news'')] \<rparr>"

section \<open>How each helper answers each kind of backend outcome\<close>

lemmas eff_defs = resolve_def lift_def and_then_def try_catch_def console_def fetch_def

subsection \<open>\<open>getPosts\<close>\<close>

lemma getPosts_fetch_rejects:
  assumes "net getPosts_request = Inl e"
  shows "getPosts net = ([(ConsoleError, ''Fetch Error:'', [Err e])], Inr (JArr []))"
  using assms by (simp add: getPosts_def eff_defs)

lemma getPosts_json_rejects:
  assumes "net getPosts_request = Inr (Response (Inl e))"
  shows "getPosts net = ([(ConsoleError, ''Fetch Error:'', [Err e])], Inr (JArr []))"
  using assms by (simp add: getPosts_def eff_defs)

lemma getPosts_member_throws:
  assumes "net getPosts_request = Inr (Response (Inr json))"
    and "member json ''errors'' = Inl e"
  shows "getPosts net = ([(ConsoleError, ''Fetch Error:'', [Err e])], Inr (JArr []))"
  using assms by (simp add: getPosts_def eff_defs)

lemma getPosts_errors:
  assumes "net getPosts_request = Inr (Response (Inr json))"
    and "member json ''errors'' = Inr errs" and "truthy errs"
  shows "getPosts net = ([(ConsoleError, ''GraphQL Errors:'', [Val errs])], Inr (JArr []))"
  using assms by (simp add: getPosts_def eff_defs)

lemma getPosts_data_throws:
  assumes "net getPosts_request = Inr (Response (Inr json))"
    and "member json ''errors'' = Inr errs" and "\<not> truthy errs"
    and "member json ''data'' = Inr d" and "member d ''posts'' = Inl e"
  shows "getPosts net = ([(ConsoleError, ''Fetch Error:'', [Err e])], Inr (JArr []))"
  using assms by (simp add: getPosts_def eff_defs)

lemma getPosts_posts_throws:
  assumes "net getPosts_request = Inr (Response (Inr json))"
    and "member json ''errors'' = Inr errs" and "\<not> truthy errs"
    and "member json ''data'' = Inr d" and "member d ''posts'' = Inr ps"
    and "member ps ''nodes'' = Inl e"
  shows "getPosts net = ([(ConsoleError, ''Fetch Error:'', [Err e])], Inr (JArr []))"
  using assms by (simp add: getPosts_def eff_defs)

lemma getPosts_nodes:
  assumes "net getPosts_request = Inr (Response (Inr json))"
    and "member json ''errors'' = Inr errs" and "\<not> truthy errs"
    and "member json ''data'' = Inr d" and "member d ''posts'' = Inr ps"
    and "member ps ''nodes'' = Inr ns"
  shows "getPosts net = ([], Inr ns)"
  using assms by (simp add: getPosts_def eff_defs)

lemma try_catch_resolves:
  assumes "\<And>e. \<exists>v. snd (h e) = Inr v"
  shows "\<exists>v. snd (try_catch m h) = Inr v"
proof -
  obtain l r where m: "m = (l, r)" by (cases m)
  show ?thesis
  proof (cases r)
    case (Inl e)
    from assms obtain v where "snd (h e) = Inr v" by blast
    with m Inl show ?thesis by (cases "h e") (simp add: try_catch_def)
  next
    case (Inr v)
    with m show ?thesis by (simp add: try_catch_def)
  qed
qed

lemma getPosts_never_rejects: "\<exists>v. snd (getPosts net) = Inr v"
  unfolding getPosts_def by (rule try_catch_resolves) (simp add: eff_defs)

lemma opt_member_resolves: "\<exists>p. opt_member v k = Inr p"
  by (cases v) (simp_all add: opt_member_def)

lemma member_throws_iff: "(\<exists>e. member v k = Inl e) = (v = JUndefined \<or> v = JNull)"
  by (cases v) simp_all

subsection \<open>\<open>getPost\<close>, both versions\<close>

lemma getPost_caught:
  assumes "net (getPost_request slug (Revalidate 60)) = Inl e
         \<or> net (getPost_request slug (Revalidate 60)) = Inr (Response (Inl e))
         \<or> (\<exists>json. net (getPost_request slug (Revalidate 60)) = Inr (Response (Inr json))
                   \<and> member json ''errors'' = Inl e)"
  shows "snd (getPost net slug) = Inr JNull"
  using assms by (auto simp add: getPost_def eff_defs)

lemma getPost_errors:
  assumes "net (getPost_request slug (Revalidate 60)) = Inr (Response (Inr json))"
    and "member json ''errors'' = Inr errs" and "truthy errs"
  shows "snd (getPost net slug) = Inr JNull"
  using assms by (simp add: getPost_def eff_defs)

lemma getPost_no_errors:
  assumes "net (getPost_request slug (Revalidate 60)) = Inr (Response (Inr json))"
    and "member json ''errors'' = Inr errs" and "\<not> truthy errs"
    and "member json ''data'' = Inr d" and "opt_member d ''post'' = Inr p"
  shows "snd (getPost net slug) = Inr (or_else p JNull)"
proof (cases "truthy p")
  case True
  then have "member d ''post'' = Inr p"
    using assms(5) by (auto simp add: opt_member_def split: if_splits)
  with assms True show ?thesis
    by (simp add: getPost_def eff_defs or_else_def)
next
  case False
  with assms show ?thesis
    by (simp add: getPost_def eff_defs or_else_def)
qed

lemma getPost_debug_caught:
  assumes "net (getPost_request slug NoStore) = Inl e
         \<or> net (getPost_request slug NoStore) = Inr (Response (Inl e))
         \<or> (\<exists>json. net (getPost_request slug NoStore) = Inr (Response (Inr json))
                   \<and> member json ''data'' = Inl e)"
  shows "getPost_debug net slug =
           ([], Inr \<lparr> post = JNull, error = Some (Str (message e)),
                      debugData = JObj [(''error'', JStr ''Network request failed'')] \<rparr>)"
  using assms by (auto simp add: getPost_debug_def eff_defs)

lemma getPost_debug_resolves:
  assumes "net (getPost_request slug NoStore) = Inr (Response (Inr json))"
    and "member json ''data'' = Inr d" and "opt_member d ''post'' = Inr p"
    and "member json ''errors'' = Inr errs"
  shows "getPost_debug net slug =
           ([], Inr \<lparr> post = or_else p JNull,
                      error = (if truthy errs then Some (JSON_stringify errs) else None),
                      debugData = json \<rparr>)"
  using assms by (simp add: getPost_debug_def eff_defs)

text \<open>Every backend outcome falls under one of the cases above.\<close>

lemma outcome_cases:
  fixes out :: "js_error + response"
  obtains (fetch_rejects) e where "out = Inl e"
  | (json_rejects) e where "out = Inr (Response (Inl e))"
  | (nullish) json e e' where "out = Inr (Response (Inr json))"
      and "member json ''data'' = Inl e" and "member json ''errors'' = Inl e'"
  | (parsed) json d p errs where "out = Inr (Response (Inr json))"
      and "member json ''data'' = Inr d" and "opt_member d ''post'' = Inr p"
      and "member json ''errors'' = Inr errs"
proof (cases out)
  case (Inl e)
  then show ?thesis by (rule fetch_rejects)
next
  case (Inr res)
  then obtain r where r: "out = Inr (Response r)" by (cases res) simp
  show ?thesis
  proof (cases r)
    case (Inl e)
    with r show ?thesis by (simp add: json_rejects)
  next
    case (Inr json)
    show ?thesis
    proof (cases "json = JUndefined \<or> json = JNull")
      case True
      then obtain e e' where "member json ''data'' = Inl e" "member json ''errors'' = Inl e'"
        using member_throws_iff by blast
      with r Inr show ?thesis by (simp add: nullish)
    next
      case False
      then obtain d errs where m: "member json ''data'' = Inr d" "member json ''errors'' = Inr errs"
        using member_throws_iff [of json] by (metis sum.exhaust)
      obtain p where "opt_member d ''post'' = Inr p"
        using opt_member_resolves by blast
      with r Inr m show ?thesis by (simp add: parsed)
    qed
  qed
qed

subsection \<open>\<open>generateStaticParams\<close>\<close>

lemma js_map_array: "js_map callee v f = Inr y \<Longrightarrow> \<exists>ys. y = JArr ys"
  by (cases v) (auto split: sum.splits)

lemma generateStaticParams_caught:
  assumes "net generateStaticParams_request = Inl e
         \<or> net generateStaticParams_request = Inr (Response (Inl e))
         \<or> (\<exists>json. net generateStaticParams_request = Inr (Response (Inr json))
                   \<and> member json ''data'' = Inl e)"
  shows "generateStaticParams net =
           ([(ConsoleError, ''[NextWP] Error fetching slugs for SSG:'', [Err e])], Inr (JArr []))"
  using assms by (auto simp add: generateStaticParams_def eff_defs)

lemma generateStaticParams_no_nodes:
  assumes "net generateStaticParams_request = Inr (Response (Inr json))"
    and "member json ''data'' = Inr d" and "opt_member d ''posts'' = Inr ps"
    and "opt_member ps ''nodes'' = Inr ns" and "\<not> truthy ns"
  shows "generateStaticParams net =
           ([(ConsoleWarn, ''[NextWP] No posts found during static generation.'', [])],
            Inr (JArr []))"
  using assms by (simp add: generateStaticParams_def eff_defs)

lemma generateStaticParams_array: "\<exists>xs. snd (generateStaticParams net) = Inr (JArr xs)"
proof -
  obtain l r where body: "generateStaticParams net = (l, r)"
    by (cases "generateStaticParams net")
  then have "\<exists>xs. r = Inr (JArr xs)"
    by (auto simp add: generateStaticParams_def eff_defs
          split: sum.splits prod.splits if_splits dest: js_map_array)
  with body show ?thesis by simp
qed

lemma opt_member_truthy:
  assumes "opt_member v k = Inr x" and "truthy x"
  shows "member v k = Inr x" and "v \<noteq> JUndefined" and "v \<noteq> JNull"
  using assms by (auto simp add: opt_member_def split: if_splits)

text \<open>
  With a truthy \<open>data.posts.nodes\<close> the helper answers with what \<open>map\<close> gives, or
  with the empty array when \<open>map\<close> throws. Nothing on this path reads \<open>errors\<close>.
\<close>

lemma generateStaticParams_nodes:
  assumes "net generateStaticParams_request = Inr (Response (Inr json))"
    and "member json ''data'' = Inr d" and "opt_member d ''posts'' = Inr ps"
    and "opt_member ps ''nodes'' = Inr ns" and "truthy ns"
  shows "generateStaticParams net =
           (case js_map ''json.data.posts.nodes.map'' ns
                   (\<lambda>p. case member p ''slug'' of
                           Inl e \<Rightarrow> Inl e
                         | Inr s \<Rightarrow> Inr (JObj [(''slug'', s)])) of
              Inl e \<Rightarrow>
                ([(ConsoleError, ''[NextWP] Error fetching slugs for SSG:'', [Err e])],
                 Inr (JArr []))
            | Inr v \<Rightarrow> ([], Inr v))"
proof -
  from assms(4,5) have ns: "member ps ''nodes'' = Inr ns" and "ps \<noteq> JUndefined"
    by (rule opt_member_truthy)+
  then have "truthy ps \<or> member d ''posts'' = Inr ps"
    using assms(3) by (auto simp add: opt_member_def split: if_splits)
  then have ps: "member d ''posts'' = Inr ps"
    using assms(3) opt_member_truthy(1) by blast
  from assms(1,2,3,4,5) ns ps show ?thesis
    by (simp add: generateStaticParams_def eff_defs split: sum.splits)
qed

lemma traverse_slug_entries:
  "traverse (\<lambda>p. case member p ''slug'' of Inl e \<Rightarrow> Inl e | Inr s \<Rightarrow> Inr (JObj [(''slug'', s)])) xs
   = (case traverse (\<lambda>p. member p ''slug'') xs of
        Inl e \<Rightarrow> Inl e
      | Inr ss \<Rightarrow> Inr (map (\<lambda>s. JObj [(''slug'', s)]) ss))"
  by (induction xs) (simp_all split: sum.splits)

lemma traverse_slugs:
  "traverse (\<lambda>p. case member p ''slug'' of Inl e \<Rightarrow> Inl e | Inr s \<Rightarrow> Inr (JObj [(''slug'', s)]))
     (map (select [F_slug]) its)
   = Inr (map (\<lambda>it. JObj [(''slug'', JStr (item_slug it))]) its)"
  by (induction its) (simp_all add: select_def)

subsection \<open>Against the content service\<close>

text \<open>A slug that matches nothing is answered with \<open>data.post = null\<close>, and the
  diagnostic \<open>getPost\<close> hands that response on as its debug payload.\<close>

lemma getPost_debug_missing_slug:
  assumes "find (\<lambda>it. item_slug it = slug) items = None"
  shows "getPost_debug (content_service items) slug =
           ([], Inr \<lparr> post = JNull, error = None,
                      debugData = JObj [(''data'', JObj [(''post'', JNull)])] \<rparr>)"
  using assms
  by (simp add: getPost_debug_def eff_defs content_service_def getPost_request_def
        post_to_def GET_SINGLE_POST_QUERY_def opt_member_def or_else_def)

lemma getPost_missing_slug:
  assumes "find (\<lambda>it. item_slug it = slug) items = None"
  shows "snd (getPost (content_service items) slug) = Inr JNull"
  using assms
  by (simp add: getPost_def eff_defs content_service_def getPost_request_def
        post_to_def GET_SINGLE_POST_QUERY_def opt_member_def)

subsection \<open>\<open>getPosts\<close> on success responses that lack a level\<close>

text \<open>
  Without \<open>data\<close>, or with \<open>data\<close> but without \<open>posts\<close>, the next property
  access throws and the handler answers with the empty array.
\<close>

lemma getPosts_data_missing:
  assumes "net getPosts_request = Inr (Response (Inr (JObj kvs)))"
    and "map_of kvs ''errors'' = None" and "map_of kvs ''data'' = None"
  shows "getPosts net =
           ([(ConsoleError, ''Fetch Error:'',
              [Err (TypeError (cannot_read ''undefined'' ''posts''))])],
            Inr (JArr []))"
  using assms by (simp add: getPosts_def eff_defs)

lemma getPosts_posts_missing:
  assumes "net getPosts_request = Inr (Response (Inr (JObj kvs)))"
    and "map_of kvs ''errors'' = None" and "map_of kvs ''data'' = Some (JObj kvs')"
    and "map_of kvs' ''posts'' = None"
  shows "getPosts net =
           ([(ConsoleError, ''Fetch Error:'',
              [Err (TypeError (cannot_read ''undefined'' ''nodes''))])],
            Inr (JArr []))"
  using assms by (simp add: getPosts_def eff_defs)

text \<open>Without \<open>nodes\<close> nothing throws: the value read is what \<open>getPosts\<close> resolves with.\<close>

lemma getPosts_nodes_absent:
  assumes "net getPosts_request = Inr (Response (Inr (JObj kvs)))"
    and "map_of kvs ''errors'' = None" and "map_of kvs ''data'' = Some (JObj kvs')"
    and "map_of kvs' ''posts'' = Some (JObj kvs'')" and "map_of kvs'' ''nodes'' = None"
  shows "getPosts net = ([], Inr JUndefined)"
  using assms by (simp add: getPosts_def eff_defs)

section \<open>The claims\<close>

text \<open>
  C1. Whatever goes wrong at the backend (\<open>fetch\<close> rejects, \<open>res.json()\<close> throws,
  or the response carries an \<open>errors\<close> array), \<open>getPosts\<close> does not throw: it
  resolves with the empty array, and the failure detail is the one console entry it
  writes. On a network failure each of the fetch helpers resolves with its empty or
  absent outcome: \<open>getPosts\<close> and \<open>generateStaticParams\<close> with the empty array,
  \<open>getPost\<close> with \<open>null\<close>, the diagnostic \<open>getPost\<close> with a \<open>null\<close> post, the
  error's message and a fixed debug payload.
\<close>

theorem fetch_failures_absorbed:
  "(net getPosts_request = Inl e \<or> net getPosts_request = Inr (Response (Inl e)) \<longrightarrow>
      getPosts net = ([(ConsoleError, ''Fetch Error:'', [Err e])], Inr (JArr [])))
   \<and> (net getPosts_request = Inr (Response (Inr json)) \<and>
        member json ''errors'' = Inr (JArr errs) \<longrightarrow>
      getPosts net = ([(ConsoleError, ''GraphQL Errors:'', [Val (JArr errs)])], Inr (JArr [])))
   \<and> (net generateStaticParams_request = Inl e \<longrightarrow>
      generateStaticParams net =
        ([(ConsoleError, ''[NextWP] Error fetching slugs for SSG:'', [Err e])], Inr (JArr [])))
   \<and> (net (getPost_request slug (Revalidate 60)) = Inl e \<longrightarrow>
      snd (getPost net slug) = Inr JNull \<and>
      last (fst (getPost net slug)) =
        (ConsoleError, ''[NextWP] Network error fetching slug '' @ [CHR 0x22] @ slug
                         @ [CHR 0x22] @ '':'', [Err e]))
   \<and> (net (getPost_request slug NoStore) = Inl e \<longrightarrow>
      getPost_debug net slug =
        ([], Inr \<lparr> post = JNull, error = Some (Str (message e)),
                   debugData = JObj [(''error'', JStr ''Network request failed'')] \<rparr>))"
proof (intro conjI impI)
  assume "net getPosts_request = Inl e \<or> net getPosts_request = Inr (Response (Inl e))"
  then show "getPosts net = ([(ConsoleError, ''Fetch Error:'', [Err e])], Inr (JArr []))"
    using getPosts_fetch_rejects getPosts_json_rejects by blast
next
  assume "net getPosts_request = Inr (Response (Inr json)) \<and>
          member json ''errors'' = Inr (JArr errs)"
  then show "getPosts net =
      ([(ConsoleError, ''GraphQL Errors:'', [Val (JArr errs)])], Inr (JArr []))"
    by (simp add: getPosts_errors)
next
  assume "net generateStaticParams_request = Inl e"
  then show "generateStaticParams net =
      ([(ConsoleError, ''[NextWP] Error fetching slugs for SSG:'', [Err e])], Inr (JArr []))"
    by (simp add: generateStaticParams_def eff_defs)
next
  assume "net (getPost_request slug (Revalidate 60)) = Inl e"
  then show "snd (getPost net slug) = Inr JNull"
    by (simp add: getPost_def eff_defs)
next
  assume "net (getPost_request slug (Revalidate 60)) = Inl e"
  then show "last (fst (getPost net slug)) =
      (ConsoleError, ''[NextWP] Network error fetching slug '' @ [CHR 0x22] @ slug
                       @ [CHR 0x22] @ '':'', [Err e])"
    by (simp add: getPost_def eff_defs)
next
  assume "net (getPost_request slug NoStore) = Inl e"
  then show "getPost_debug net slug =
      ([], Inr \<lparr> post = JNull, error = Some (Str (message e)),
                 debugData = JObj [(''error'', JStr ''Network request failed'')] \<rparr>)"
    by (simp add: getPost_debug_def eff_defs)
qed

theorem fetch_failures_absorbed_witness:
  "getPosts unreachable =
     ([(ConsoleError, ''Fetch Error:'', [Err (TypeError ''fetch failed'')])], Inr (JArr []))
   \<and> getPosts (\<lambda>req. Inr (Response (Inl (SyntaxError ''Unexpected token <'')))) =
     ([(ConsoleError, ''Fetch Error:'', [Err (SyntaxError ''Unexpected token <'')])],
      Inr (JArr []))
   \<and> getPosts (answering (JObj [(''errors'', JArr [JStr ''denied''])])) =
     ([(ConsoleError, ''GraphQL Errors:'', [Val (JArr [JStr ''denied''])])], Inr (JArr []))
   \<and> snd (generateStaticParams unreachable) = Inr (JArr [])
   \<and> snd (getPost unreachable ''hello'') = Inr JNull
   \<and> snd (getPost_debug unreachable ''hello'') =
       Inr \<lparr> post = JNull, error = Some (Str ''fetch failed''),
              debugData = JObj [(''error'', JStr ''Network request failed'')] \<rparr>"
  using fetch_failures_absorbed [where net = unreachable and e = "TypeError ''fetch failed''"
          and slug = "''hello''"]
        fetch_failures_absorbed [where net = "\<lambda>req. Inr (Response (Inl (SyntaxError ''Unexpected token <'')))"
          and e = "SyntaxError ''Unexpected token <''"]
        fetch_failures_absorbed [where net = "answering (JObj [(''errors'', JArr [JStr ''denied''])])"
          and json = "JObj [(''errors'', JArr [JStr ''denied''])]" and errs = "[JStr ''denied'']"]
  by (simp add: unreachable_def answering_def)

text \<open>
  C10. Where the claim fails: a success response without \<open>errors\<close> whose \<open>posts\<close>
  object has no \<open>nodes\<close> property. Reading \<open>json.data.posts.nodes\<close> does not throw,
  nothing reaches the handler, and \<open>getPosts\<close> resolves with \<open>undefined\<close>
  instead of the empty array.
\<close>

theorem getPosts_nodes_missing:
  "getPosts (answering nodes_missing) = ([], Inr JUndefined)"
  by (simp add: getPosts_def eff_defs answering_def nodes_missing_def)

text \<open>
  C2, as the code has it. For a response whose \<open>errors\<close> is an array, the standard
  \<open>getPost\<close> resolves with \<open>null\<close>. The diagnostic \<open>getPost\<close> does not throw
  either and reports the errors in its \<open>error\<close> field, but it fills \<open>post\<close> from
  \<open>data.post\<close> whatever \<open>errors\<close> holds: its outcome is non-Found exactly when
  \<open>data.post\<close> is absent or falsy.
\<close>

theorem getPost_on_errors_array:
  assumes "member json ''errors'' = Inr (JArr errs)"
  shows "(net (getPost_request slug (Revalidate 60)) = Inr (Response (Inr json)) \<longrightarrow>
            snd (getPost net slug) = Inr JNull)
       \<and> (net (getPost_request slug NoStore) = Inr (Response (Inr json)) \<longrightarrow>
            (\<exists>d p. member json ''data'' = Inr d \<and> opt_member d ''post'' = Inr p \<and>
               getPost_debug net slug =
                 ([], Inr \<lparr> post = (if truthy p then p else JNull),
                            error = Some (JSON_stringify (JArr errs)),
                            debugData = json \<rparr>)))"
proof (intro conjI impI)
  assume "net (getPost_request slug (Revalidate 60)) = Inr (Response (Inr json))"
  with assms show "snd (getPost net slug) = Inr JNull"
    by (simp add: getPost_errors)
next
  assume net: "net (getPost_request slug NoStore) = Inr (Response (Inr json))"
  from assms have "json \<noteq> JUndefined \<and> json \<noteq> JNull" by auto
  then obtain d where d: "member json ''data'' = Inr d"
    using member_throws_iff [of json "''data''"] by (metis sum.exhaust)
  obtain p where p: "opt_member d ''post'' = Inr p"
    using opt_member_resolves by blast
  from getPost_debug_resolves [of net slug json d p "JArr errs"] net assms d p
  show "\<exists>d p. member json ''data'' = Inr d \<and> opt_member d ''post'' = Inr p \<and>
          getPost_debug net slug =
            ([], Inr \<lparr> post = (if truthy p then p else JNull),
                       error = Some (JSON_stringify (JArr errs)),
                       debugData = json \<rparr>)"
    by (auto simp add: or_else_def)
qed

theorem getPost_on_errors_array_witness:
  "snd (getPost (answering (JObj [(''errors'', JArr [JStr ''denied'']), (''data'', JNull)]))
         ''hello'') = Inr JNull
   \<and> getPost_debug (answering (JObj [(''errors'', JArr [JStr ''denied'']), (''data'', JNull)]))
         ''hello'' =
       ([], Inr \<lparr> post = JNull, error = Some (JSON_stringify (JArr [JStr ''denied''])),
                  debugData = JObj [(''errors'', JArr [JStr ''denied'']), (''data'', JNull)] \<rparr>)"
  using getPost_on_errors_array
          [where json = "JObj [(''errors'', JArr [JStr ''denied'']), (''data'', JNull)]"
             and errs = "[JStr ''denied'']"
             and net = "answering (JObj [(''errors'', JArr [JStr ''denied'']), (''data'', JNull)])"
             and slug = "''hello''"]
  by (simp add: answering_def opt_member_def)

text \<open>
  C2, as stated, fails at the diagnostic call site: the response carries an \<open>errors\<close>
  array and a post, and the outcome is Found.
\<close>

theorem getPost_debug_found_despite_errors:
  "member errors_and_post ''errors'' =
     Inr (JArr [JObj [(''message'', JStr ''Internal server error'')]])
   \<and> map_sum id post (snd (getPost_debug (answering errors_and_post) ''hello'')) =
     Inr (JObj [(''id'', JStr ''cG9zdDox''), (''title'', JStr ''Hello''),
                (''content'', JStr ''<p>Hi</p>''), (''date'', JStr ''2024-01-01T00:00:00''),
                (''excerpt'', JStr ''<p>Hi</p>''), (''author'', JNull),
                (''featuredImage'', JNull),
                (''categories'', JObj [(''nodes'', JArr [])])])"
  by (simp add: getPost_debug_def eff_defs answering_def errors_and_post_def
        opt_member_def or_else_def)

text \<open>
  C3, as the code has it. The standard \<open>getPost\<close> resolves with one value, either
  \<open>null\<close> or a truthy post. The diagnostic \<open>getPost\<close> fills \<open>post\<close> and \<open>error\<close>
  independently of each other: \<open>post\<close> is \<open>null\<close> or truthy, and the result is Found
  and carries an error at once exactly when the response holds both a truthy \<open>errors\<close>
  and a truthy \<open>data.post\<close>.
\<close>

theorem result_variants:
  "(\<exists>p. snd (getPost net slug) = Inr p \<and> (p = JNull \<or> truthy p))
   \<and> (\<exists>r. snd (getPost_debug net slug) = Inr r \<and> (post r = JNull \<or> truthy (post r)) \<and>
        ((post r \<noteq> JNull \<and> error r \<noteq> None) =
         (\<exists>json errs d p. net (getPost_request slug NoStore) = Inr (Response (Inr json)) \<and>
            member json ''errors'' = Inr errs \<and> truthy errs \<and>
            member json ''data'' = Inr d \<and> opt_member d ''post'' = Inr p \<and> truthy p)))"
proof
  show "\<exists>p. snd (getPost net slug) = Inr p \<and> (p = JNull \<or> truthy p)"
  proof (cases "net (getPost_request slug (Revalidate 60))" rule: outcome_cases)
    case (fetch_rejects e)
    then show ?thesis using getPost_caught [of net slug e] by simp
  next
    case (json_rejects e)
    then show ?thesis using getPost_caught [of net slug e] by simp
  next
    case (nullish json e e')
    then show ?thesis using getPost_caught [of net slug e'] by auto
  next
    case (parsed json d p errs)
    show ?thesis
    proof (cases "truthy errs")
      case True
      with parsed show ?thesis using getPost_errors [of net slug json errs] by simp
    next
      case False
      with parsed have "snd (getPost net slug) = Inr (or_else p JNull)"
        by (simp add: getPost_no_errors)
      then show ?thesis by (simp add: or_else_def)
    qed
  qed
next
  show "\<exists>r. snd (getPost_debug net slug) = Inr r \<and> (post r = JNull \<or> truthy (post r)) \<and>
        ((post r \<noteq> JNull \<and> error r \<noteq> None) =
         (\<exists>json errs d p. net (getPost_request slug NoStore) = Inr (Response (Inr json)) \<and>
            member json ''errors'' = Inr errs \<and> truthy errs \<and>
            member json ''data'' = Inr d \<and> opt_member d ''post'' = Inr p \<and> truthy p))"
  proof (cases "net (getPost_request slug NoStore)" rule: outcome_cases)
    case (fetch_rejects e)
    then show ?thesis using getPost_debug_caught [of net slug e] by simp
  next
    case (json_rejects e)
    then show ?thesis using getPost_debug_caught [of net slug e] by simp
  next
    case (nullish json e e')
    then have "getPost_debug net slug =
        ([], Inr \<lparr> post = JNull, error = Some (Str (message e)),
                   debugData = JObj [(''error'', JStr ''Network request failed'')] \<rparr>)"
      using getPost_debug_caught [of net slug e] by auto
    with nullish show ?thesis by simp
  next
    case (parsed json d p errs)
    then have "getPost_debug net slug =
        ([], Inr \<lparr> post = or_else p JNull,
                   error = (if truthy errs then Some (JSON_stringify errs) else None),
                   debugData = json \<rparr>)"
      by (simp add: getPost_debug_resolves)
    with parsed show ?thesis by (auto simp add: or_else_def)
  qed
qed

text \<open>
  C3, as stated, fails at the diagnostic call site: one result is Found and carries an
  error.
\<close>

theorem getPost_debug_found_with_error:
  "(case snd (getPost_debug (answering errors_and_post) ''hello'') of
      Inl e \<Rightarrow> False
    | Inr r \<Rightarrow> truthy (post r) \<and>
        error r = Some (JSON_stringify (JArr [JObj [(''message'', JStr ''Internal server error'')]])))"
  by (simp add: getPost_debug_def eff_defs answering_def errors_and_post_def
        opt_member_def or_else_def)

text \<open>
  C7. At the diagnostic call site, a response without a truthy \<open>data.post\<close> (what
  the content service sends for a slug that matches nothing) gives a non-Found outcome
  whose \<open>debugData\<close> is the parsed response itself, unchanged.
\<close>

theorem getPost_debug_absent_keeps_raw_response:
  assumes "net (getPost_request slug NoStore) = Inr (Response (Inr json))"
    and "member json ''data'' = Inr d"
    and "opt_member d ''post'' = Inr p"
    and "\<not> truthy p"
  shows "\<exists>r. snd (getPost_debug net slug) = Inr r \<and> post r = JNull \<and> debugData r = json"
proof -
  from assms(2) have "json \<noteq> JUndefined \<and> json \<noteq> JNull" by auto
  then obtain errs where "member json ''errors'' = Inr errs"
    using member_throws_iff [of json "''errors''"] by (metis sum.exhaust)
  with assms have "getPost_debug net slug =
      ([], Inr \<lparr> post = or_else p JNull,
                 error = (if truthy errs then Some (JSON_stringify errs) else None),
                 debugData = json \<rparr>)"
    using getPost_debug_resolves [of net slug json d p errs] by simp
  with assms(4) show ?thesis by (simp add: or_else_def)
qed

theorem getPost_debug_absent_keeps_raw_response_witness:
  "\<exists>r. snd (getPost_debug (answering (JObj [(''data'', JObj [(''post'', JNull)])])) ''missing-slug'')
          = Inr r
      \<and> post r = JNull \<and> debugData r = JObj [(''data'', JObj [(''post'', JNull)])]"
  using getPost_debug_absent_keeps_raw_response
          [where net = "answering (JObj [(''data'', JObj [(''post'', JNull)])])"
             and slug = "''missing-slug''"
             and json = "JObj [(''data'', JObj [(''post'', JNull)])]"
             and d = "JObj [(''post'', JNull)]" and p = JNull]
  by (simp add: answering_def opt_member_def)

text \<open>
  C9, as the code has it. When both versions of \<open>getPost\<close> see the same backend
  outcome, both resolve, and they classify the outcome alike (the \<open>post\<close> of the
  diagnostic result is the value the standard version resolves with) in every case but
  one: a response that holds both a truthy \<open>errors\<close> and a truthy \<open>data.post\<close>.
  On any response with a truthy \<open>errors\<close> the standard version resolves with
  \<open>null\<close>, while the diagnostic version follows \<open>data.post\<close>.
\<close>

theorem getPost_versions_agreement:
  assumes same: "net (getPost_request slug NoStore) = net (getPost_request slug (Revalidate 60))"
  shows "\<exists>r v. snd (getPost_debug net slug) = Inr r \<and> snd (getPost net slug) = Inr v
          \<and> ((post r \<noteq> v) =
              (\<exists>json errs d p. net (getPost_request slug NoStore) = Inr (Response (Inr json))
                 \<and> member json ''errors'' = Inr errs \<and> truthy errs
                 \<and> member json ''data'' = Inr d \<and> opt_member d ''post'' = Inr p \<and> truthy p))
          \<and> (\<forall>json errs d p. net (getPost_request slug NoStore) = Inr (Response (Inr json))
                 \<and> member json ''errors'' = Inr errs \<and> truthy errs
                 \<and> member json ''data'' = Inr d \<and> opt_member d ''post'' = Inr p \<longrightarrow>
               v = JNull \<and> post r = (if truthy p then p else JNull))"
proof (cases "net (getPost_request slug NoStore)" rule: outcome_cases)
  case (fetch_rejects e)
  then show ?thesis
    using same getPost_debug_caught [of net slug e] getPost_caught [of net slug e] by simp
next
  case (json_rejects e)
  then show ?thesis
    using same getPost_debug_caught [of net slug e] getPost_caught [of net slug e] by simp
next
  case (nullish json e e')
  then have "getPost_debug net slug =
      ([], Inr \<lparr> post = JNull, error = Some (Str (message e)),
                 debugData = JObj [(''error'', JStr ''Network request failed'')] \<rparr>)"
    using getPost_debug_caught [of net slug e] by auto
  moreover have "snd (getPost net slug) = Inr JNull"
    using nullish same getPost_caught [of net slug e'] by auto
  ultimately show ?thesis using nullish by simp
next
  case (parsed json d p errs)
  then have dbg: "getPost_debug net slug =
      ([], Inr \<lparr> post = or_else p JNull,
                 error = (if truthy errs then Some (JSON_stringify errs) else None),
                 debugData = json \<rparr>)"
    by (simp add: getPost_debug_resolves)
  show ?thesis
  proof (cases "truthy errs")
    case True
    with parsed same have "snd (getPost net slug) = Inr JNull"
      using getPost_errors [of net slug json errs] by simp
    with dbg parsed True show ?thesis by (auto simp add: or_else_def)
  next
    case False
    with parsed same have "snd (getPost net slug) = Inr (or_else p JNull)"
      by (simp add: getPost_no_errors)
    with dbg parsed False show ?thesis by auto
  qed
qed

theorem getPost_versions_agreement_witness:
  "(\<exists>r. snd (getPost_debug (content_service [hello_world]) ''hello-world'') = Inr r
      \<and> snd (getPost (content_service [hello_world]) ''hello-world'') = Inr (post r)
      \<and> truthy (post r))
   \<and> (\<exists>r. snd (getPost_debug
                (answering (JObj [(''errors'', JArr [JStr ''denied'']), (''data'', JNull)]))
                ''hello'') = Inr r
      \<and> snd (getPost (answering (JObj [(''errors'', JArr [JStr ''denied'']), (''data'', JNull)]))
                ''hello'') = Inr (post r)
      \<and> post r = JNull)
   \<and> (\<exists>r. snd (getPost_debug
                (answering (JObj [(''errors'', JArr [JStr ''denied'']),
                                  (''data'', JObj [(''post'', JObj [(''id'', JStr ''1'')])])]))
                ''hello'') = Inr r
      \<and> snd (getPost
                (answering (JObj [(''errors'', JArr [JStr ''denied'']),
                                  (''data'', JObj [(''post'', JObj [(''id'', JStr ''1'')])])]))
                ''hello'') = Inr JNull
      \<and> post r = JObj [(''id'', JStr ''1'')])"
  using getPost_versions_agreement
          [where net = "content_service [hello_world]" and slug = "''hello-world''"]
        getPost_versions_agreement
          [where net = "answering (JObj [(''errors'', JArr [JStr ''denied'']), (''data'', JNull)])"
             and slug = "''hello''"]
        getPost_versions_agreement
          [where net = "answering (JObj [(''errors'', JArr [JStr ''denied'']),
                                  (''data'', JObj [(''post'', JObj [(''id'', JStr ''1'')])])])"
             and slug = "''hello''"]
  by (simp add: getPost_def getPost_debug_def eff_defs answering_def content_service_def
        getPost_request_def post_to_def GET_SINGLE_POST_QUERY_def hello_world_def select_def
        opt_member_def or_else_def)

text \<open>
  C9, as stated, fails: on a response with an \<open>errors\<close> array and a post the standard
  version is non-Found and the diagnostic version is Found.
\<close>

theorem getPost_versions_disagree_on_errors:
  "snd (getPost (answering errors_and_post) ''hello'') = Inr JNull
   \<and> map_sum id (\<lambda>r. truthy (post r)) (snd (getPost_debug (answering errors_and_post) ''hello''))
       = Inr True"
  by (simp add: getPost_def getPost_debug_def eff_defs answering_def errors_and_post_def
        opt_member_def or_else_def)

text \<open>
  C4. For a slug the content service holds, \<open>getPost\<close> (in both versions) resolves
  with the post, and every field the query projects carries the service's value: id,
  title, body markup, publish date, excerpt, author name, the cover image when there
  is one, and the category names.
\<close>

theorem getPost_found_fields:
  assumes "find (\<lambda>it. item_slug it = slug) items = Some it"
  shows "snd (getPost (content_service items) slug) =
           Inr (JObj [(''id'', JStr (item_id it)),
                      (''title'', JStr (item_title it)),
                      (''content'', JStr (item_content it)),
                      (''date'', JStr (item_date it)),
                      (''excerpt'', JStr (item_excerpt it)),
                      (''author'', JObj [(''node'', JObj [(''name'', JStr (item_author it))])]),
                      (''featuredImage'',
                         case item_image it of
                           None \<Rightarrow> JNull
                         | Some u \<Rightarrow> JObj [(''node'', JObj [(''sourceUrl'', JStr u)])]),
                      (''categories'',
                         JObj [(''nodes'',
                           JArr (map (\<lambda>c. JObj [(''name'', JStr (fst c))]) (item_categories it)))])])
       \<and> map_sum id post (snd (getPost_debug (content_service items) slug)) =
           snd (getPost (content_service items) slug)"
  using assms
  by (simp add: getPost_def getPost_debug_def eff_defs content_service_def getPost_request_def
        post_to_def GET_SINGLE_POST_QUERY_def select_def opt_member_def or_else_def)

theorem getPost_found_fields_witness:
  "snd (getPost (content_service [hello_world]) ''hello-world'') =
     Inr (JObj [(''id'', JStr ''cG9zdDox''),
                (''title'', JStr ''Hello world!''),
                (''content'', JStr ''<p>Welcome.</p>''),
                (''date'', JStr ''2024-01-01T00:00:00''),
                (''excerpt'', JStr ''<p>Welcome</p>''),
                (''author'', JObj [(''node'', JObj [(''name'', JStr ''admin'')])]),
                (''featuredImage'',
                   JObj [(''node'', JObj [(''sourceUrl'', JStr ''https://example.com/a.png'')])]),
                (''categories'', JObj [(''nodes'', JArr [JObj [(''name'', JStr ''News'')]])])])"
  using getPost_found_fields [where items = "[hello_world]" and slug = "''hello-world''"
          and it = hello_world]
  by (simp add: hello_world_def)

text \<open>
  C5. Against a content service holding \<open>N\<close> items, \<open>getPosts\<close> resolves with
  exactly \<open>min N 12\<close> posts: the first twelve items (all of them when there are
  fewer) in the service's order, each projected to the fields of the listing query.
\<close>

theorem getPosts_first_twelve:
  "\<exists>ns. getPosts (content_service items) = ([], Inr (JArr ns))
      \<and> length ns = min (length items) 12
      \<and> ns = map (\<lambda>it.
                JObj [(''id'', JStr (item_id it)),
                      (''slug'', JStr (item_slug it)),
                      (''title'', JStr (item_title it)),
                      (''excerpt'', JStr (item_excerpt it)),
                      (''date'', JStr (item_date it)),
                      (''author'', JObj [(''node'', JObj [(''name'', JStr (item_author it))])]),
                      (''featuredImage'',
                         case item_image it of
                           None \<Rightarrow> JNull
                         | Some u \<Rightarrow> JObj [(''node'', JObj [(''sourceUrl'', JStr u)])]),
                      (''categories'',
                         JObj [(''nodes'',
                           JArr (map (\<lambda>c. JObj [(''name'', JStr (fst c)), (''slug'', JStr (snd c))])
                                   (item_categories it)))])])
              (take 12 items)"
  by (simp add: getPosts_def eff_defs content_service_def getPosts_request_def post_to_def
        GET_POSTS_QUERY_def select_def)

text \<open>
  C6, as the code has it. Against a content service holding \<open>N\<close> items,
  \<open>generateStaticParams\<close> resolves with \<open>min N 100\<close> slug entries, the first hundred
  in the service's order. It always resolves with an array, and with the empty one
  when \<open>fetch\<close> rejects, when \<open>res.json()\<close> throws, and when the response has no
  truthy \<open>data.posts.nodes\<close> (an error response without data among them). It does
  not look at \<open>errors\<close>: whenever \<open>data.posts.nodes\<close> is an array whose nodes can
  all be read, the result is one entry \<open>{slug}\<close> per node, in the order of the nodes,
  whatever else the response carries. A truthy \<open>nodes\<close> that is not an array, or a
  node that is \<open>null\<close>, makes \<open>map\<close> throw, and the result is the empty array.
\<close>

theorem generateStaticParams_outcomes:
  "(\<exists>ns. generateStaticParams (content_service items) = ([], Inr (JArr ns))
       \<and> length ns = min (length items) 100
       \<and> ns = map (\<lambda>it. JObj [(''slug'', JStr (item_slug it))]) (take 100 items))
   \<and> (\<exists>xs. snd (generateStaticParams net) = Inr (JArr xs))
   \<and> (net generateStaticParams_request = Inl e
        \<or> net generateStaticParams_request = Inr (Response (Inl e)) \<longrightarrow>
      snd (generateStaticParams net) = Inr (JArr []))
   \<and> (net generateStaticParams_request = Inr (Response (Inr json))
        \<and> member json ''data'' = Inl e \<longrightarrow>
      snd (generateStaticParams net) = Inr (JArr []))
   \<and> (net generateStaticParams_request = Inr (Response (Inr json))
        \<and> member json ''data'' = Inr d \<and> opt_member d ''posts'' = Inr ps
        \<and> opt_member ps ''nodes'' = Inr ns \<and> \<not> truthy ns \<longrightarrow>
      snd (generateStaticParams net) = Inr (JArr []))
   \<and> (net generateStaticParams_request = Inr (Response (Inr json))
        \<and> member json ''data'' = Inr d \<and> opt_member d ''posts'' = Inr ps
        \<and> opt_member ps ''nodes'' = Inr (JArr xs)
        \<and> traverse (\<lambda>p. member p ''slug'') xs = Inr ss \<longrightarrow>
      generateStaticParams net = ([], Inr (JArr (map (\<lambda>s. JObj [(''slug'', s)]) ss)))
      \<and> length ss = length xs)
   \<and> (net generateStaticParams_request = Inr (Response (Inr json))
        \<and> member json ''data'' = Inr d \<and> opt_member d ''posts'' = Inr ps
        \<and> opt_member ps ''nodes'' = Inr (JArr xs)
        \<and> traverse (\<lambda>p. member p ''slug'') xs = Inl e \<longrightarrow>
      generateStaticParams net =
        ([(ConsoleError, ''[NextWP] Error fetching slugs for SSG:'', [Err e])], Inr (JArr [])))
   \<and> (net generateStaticParams_request = Inr (Response (Inr json))
        \<and> member json ''data'' = Inr d \<and> opt_member d ''posts'' = Inr ps
        \<and> opt_member ps ''nodes'' = Inr ns \<and> truthy ns \<and> (\<forall>ys. ns \<noteq> JArr ys) \<longrightarrow>
      generateStaticParams net =
        ([(ConsoleError, ''[NextWP] Error fetching slugs for SSG:'',
           [Err (TypeError ''json.data.posts.nodes.map is not a function'')])], Inr (JArr [])))"
proof (intro conjI impI)
  show "\<exists>ns. generateStaticParams (content_service items) = ([], Inr (JArr ns))
       \<and> length ns = min (length items) 100
       \<and> ns = map (\<lambda>it. JObj [(''slug'', JStr (item_slug it))]) (take 100 items)"
    by (simp add: generateStaticParams_def eff_defs content_service_def
          generateStaticParams_request_def post_to_def GET_POST_SLUGS_QUERY_def
          opt_member_def traverse_slugs)
next
  show "\<exists>xs. snd (generateStaticParams net) = Inr (JArr xs)"
    by (rule generateStaticParams_array)
next
  assume "net generateStaticParams_request = Inl e
        \<or> net generateStaticParams_request = Inr (Response (Inl e))"
  then show "snd (generateStaticParams net) = Inr (JArr [])"
    using generateStaticParams_caught [of net e] by auto
next
  assume "net generateStaticParams_request = Inr (Response (Inr json))
        \<and> member json ''data'' = Inl e"
  then show "snd (generateStaticParams net) = Inr (JArr [])"
    using generateStaticParams_caught [of net e] by auto
next
  assume "net generateStaticParams_request = Inr (Response (Inr json))
        \<and> member json ''data'' = Inr d \<and> opt_member d ''posts'' = Inr ps
        \<and> opt_member ps ''nodes'' = Inr ns \<and> \<not> truthy ns"
  then show "snd (generateStaticParams net) = Inr (JArr [])"
    using generateStaticParams_no_nodes [of net json d ps ns] by simp
next
  assume a: "net generateStaticParams_request = Inr (Response (Inr json))
        \<and> member json ''data'' = Inr d \<and> opt_member d ''posts'' = Inr ps
        \<and> opt_member ps ''nodes'' = Inr (JArr xs)
        \<and> traverse (\<lambda>p. member p ''slug'') xs = Inr ss"
  then show "generateStaticParams net = ([], Inr (JArr (map (\<lambda>s. JObj [(''slug'', s)]) ss)))"
    using generateStaticParams_nodes [of net json d ps "JArr xs"]
    by (simp add: traverse_slug_entries)
next
  assume a: "net generateStaticParams_request = Inr (Response (Inr json))
        \<and> member json ''data'' = Inr d \<and> opt_member d ''posts'' = Inr ps
        \<and> opt_member ps ''nodes'' = Inr (JArr xs)
        \<and> traverse (\<lambda>p. member p ''slug'') xs = Inr ss"
  then have "traverse (\<lambda>p. member p ''slug'') xs = Inr ss" by simp
  then show "length ss = length xs"
    by (induction xs arbitrary: ss) (auto split: sum.splits)
next
  assume a: "net generateStaticParams_request = Inr (Response (Inr json))
        \<and> member json ''data'' = Inr d \<and> opt_member d ''posts'' = Inr ps
        \<and> opt_member ps ''nodes'' = Inr (JArr xs)
        \<and> traverse (\<lambda>p. member p ''slug'') xs = Inl e"
  then show "generateStaticParams net =
        ([(ConsoleError, ''[NextWP] Error fetching slugs for SSG:'', [Err e])], Inr (JArr []))"
    using generateStaticParams_nodes [of net json d ps "JArr xs"]
    by (simp add: traverse_slug_entries)
next
  assume a: "net generateStaticParams_request = Inr (Response (Inr json))
        \<and> member json ''data'' = Inr d \<and> opt_member d ''posts'' = Inr ps
        \<and> opt_member ps ''nodes'' = Inr ns \<and> truthy ns \<and> (\<forall>ys. ns \<noteq> JArr ys)"
  then have "js_map ''json.data.posts.nodes.map'' ns
               (\<lambda>p. case member p ''slug'' of Inl e \<Rightarrow> Inl e | Inr s \<Rightarrow> Inr (JObj [(''slug'', s)]))
             = Inl (TypeError ''json.data.posts.nodes.map is not a function'')"
    by (cases ns) simp_all
  with a show "generateStaticParams net =
        ([(ConsoleError, ''[NextWP] Error fetching slugs for SSG:'',
           [Err (TypeError ''json.data.posts.nodes.map is not a function'')])], Inr (JArr []))"
    using generateStaticParams_nodes [of net json d ps ns] by simp
qed

theorem generateStaticParams_outcomes_witness:
  "snd (generateStaticParams unreachable) = Inr (JArr [])
   \<and> snd (generateStaticParams (\<lambda>req. Inr (Response (Inl (SyntaxError ''Unexpected token <'')))))
       = Inr (JArr [])
   \<and> snd (generateStaticParams (answering JNull)) = Inr (JArr [])
   \<and> snd (generateStaticParams
            (answering (JObj [(''errors'', JArr [JStr ''denied'']), (''data'', JNull)])))
       = Inr (JArr [])
   \<and> generateStaticParams
        (answering (JObj [(''errors'', JArr [JStr ''denied'']),
                          (''data'', JObj [(''posts'', JObj [(''nodes'',
                             JArr [JObj [(''slug'', JStr ''a'')], JObj [(''slug'', JStr ''b'')]])])])]))
       = ([], Inr (JArr [JObj [(''slug'', JStr ''a'')], JObj [(''slug'', JStr ''b'')]]))
   \<and> generateStaticParams
        (answering (JObj [(''data'', JObj [(''posts'', JObj [(''nodes'',
                             JArr [JObj [(''slug'', JStr ''a'')], JNull])])])]))
       = ([(ConsoleError, ''[NextWP] Error fetching slugs for SSG:'',
            [Err (TypeError (cannot_read ''null'' ''slug''))])], Inr (JArr []))
   \<and> generateStaticParams
        (answering (JObj [(''data'', JObj [(''posts'', JObj [(''nodes'', JStr ''none'')])])]))
       = ([(ConsoleError, ''[NextWP] Error fetching slugs for SSG:'',
            [Err (TypeError ''json.data.posts.nodes.map is not a function'')])], Inr (JArr []))"
proof (intro conjI)
  show "snd (generateStaticParams unreachable) = Inr (JArr [])"
    using generateStaticParams_outcomes
            [where items = "[]" and net = unreachable and e = "TypeError ''fetch failed''"
               and json = JNull and d = JNull and ps = JNull and ns = JNull and xs = "[]"
               and ss = "[]"]
    by (simp add: unreachable_def)
next
  show "snd (generateStaticParams (\<lambda>req. Inr (Response (Inl (SyntaxError ''Unexpected token <'')))))
       = Inr (JArr [])"
    using generateStaticParams_outcomes
            [where items = "[]"
               and net = "\<lambda>req. Inr (Response (Inl (SyntaxError ''Unexpected token <'')))"
               and e = "SyntaxError ''Unexpected token <''"
               and json = JNull and d = JNull and ps = JNull and ns = JNull and xs = "[]"
               and ss = "[]"]
    by simp
next
  show "snd (generateStaticParams (answering JNull)) = Inr (JArr [])"
    using generateStaticParams_outcomes
            [where items = "[]" and net = "answering JNull"
               and e = "TypeError (cannot_read ''null'' ''data'')"
               and json = JNull and d = JNull and ps = JNull and ns = JNull and xs = "[]"
               and ss = "[]"]
    by (simp add: answering_def)
next
  show "snd (generateStaticParams
            (answering (JObj [(''errors'', JArr [JStr ''denied'']), (''data'', JNull)])))
       = Inr (JArr [])"
    using generateStaticParams_outcomes
            [where items = "[]"
               and net = "answering (JObj [(''errors'', JArr [JStr ''denied'']), (''data'', JNull)])"
               and e = "TypeError ''fetch failed''"
               and json = "JObj [(''errors'', JArr [JStr ''denied'']), (''data'', JNull)]"
               and d = JNull and ps = JUndefined and ns = JUndefined and xs = "[]"
               and ss = "[]"]
    by (simp add: answering_def opt_member_def)
next
  show "generateStaticParams
        (answering (JObj [(''errors'', JArr [JStr ''denied'']),
                          (''data'', JObj [(''posts'', JObj [(''nodes'',
                             JArr [JObj [(''slug'', JStr ''a'')], JObj [(''slug'', JStr ''b'')]])])])]))
       = ([], Inr (JArr [JObj [(''slug'', JStr ''a'')], JObj [(''slug'', JStr ''b'')]]))"
    using generateStaticParams_outcomes
          [where items = "[]"
             and net = "answering (JObj [(''errors'', JArr [JStr ''denied'']),
                          (''data'', JObj [(''posts'', JObj [(''nodes'',
                             JArr [JObj [(''slug'', JStr ''a'')], JObj [(''slug'', JStr ''b'')]])])])])"
             and e = "TypeError ''fetch failed''"
             and json = "JObj [(''errors'', JArr [JStr ''denied'']),
                          (''data'', JObj [(''posts'', JObj [(''nodes'',
                             JArr [JObj [(''slug'', JStr ''a'')], JObj [(''slug'', JStr ''b'')]])])])]"
             and d = "JObj [(''posts'', JObj [(''nodes'',
                             JArr [JObj [(''slug'', JStr ''a'')], JObj [(''slug'', JStr ''b'')]])])]"
             and ps = "JObj [(''nodes'',
                             JArr [JObj [(''slug'', JStr ''a'')], JObj [(''slug'', JStr ''b'')]])]"
             and ns = JUndefined
             and xs = "[JObj [(''slug'', JStr ''a'')], JObj [(''slug'', JStr ''b'')]]"
             and ss = "[JStr ''a'', JStr ''b'']"]
    by (simp add: answering_def opt_member_def)
next
  show "generateStaticParams
        (answering (JObj [(''data'', JObj [(''posts'', JObj [(''nodes'',
                             JArr [JObj [(''slug'', JStr ''a'')], JNull])])])]))
       = ([(ConsoleError, ''[NextWP] Error fetching slugs for SSG:'',
            [Err (TypeError (cannot_read ''null'' ''slug''))])], Inr (JArr []))"
    using generateStaticParams_outcomes
          [where items = "[]"
             and net = "answering (JObj [(''data'', JObj [(''posts'', JObj [(''nodes'',
                             JArr [JObj [(''slug'', JStr ''a'')], JNull])])])])"
             and json = "JObj [(''data'', JObj [(''posts'', JObj [(''nodes'',
                             JArr [JObj [(''slug'', JStr ''a'')], JNull])])])]"
             and d = "JObj [(''posts'', JObj [(''nodes'',
                             JArr [JObj [(''slug'', JStr ''a'')], JNull])])]"
             and ps = "JObj [(''nodes'', JArr [JObj [(''slug'', JStr ''a'')], JNull])]"
             and ns = JUndefined
             and xs = "[JObj [(''slug'', JStr ''a'')], JNull]"
             and ss = "[]"
             and e = "TypeError (cannot_read ''null'' ''slug'')"]
    by (simp add: answering_def opt_member_def)
next
  show "generateStaticParams
        (answering (JObj [(''data'', JObj [(''posts'', JObj [(''nodes'', JStr ''none'')])])]))
       = ([(ConsoleError, ''[NextWP] Error fetching slugs for SSG:'',
            [Err (TypeError ''json.data.posts.nodes.map is not a function'')])], Inr (JArr []))"
    using generateStaticParams_outcomes
          [where items = "[]"
             and net = "answering (JObj [(''data'', JObj [(''posts'', JObj [(''nodes'', JStr ''none'')])])])"
             and e = "TypeError ''fetch failed''"
             and json = "JObj [(''data'', JObj [(''posts'', JObj [(''nodes'', JStr ''none'')])])]"
             and d = "JObj [(''posts'', JObj [(''nodes'', JStr ''none'')])]"
             and ps = "JObj [(''nodes'', JStr ''none'')]"
             and ns = "JStr ''none''" and xs = "[]" and ss = "[]"]
    by (simp add: answering_def opt_member_def)
qed

text \<open>
  C6, as stated, fails: a response with an \<open>errors\<close> array that also carries nodes is
  not answered with the empty sequence.
\<close>

theorem generateStaticParams_ignores_errors:
  "member errors_and_nodes ''errors'' =
     Inr (JArr [JObj [(''message'', JStr ''Internal server error'')]])
   \<and> generateStaticParams (answering errors_and_nodes) =
       ([], Inr (JArr [JObj [(''slug'', JStr ''hello'')], JObj [(''slug'', JNull)]]))"
  by (simp add: generateStaticParams_def eff_defs answering_def errors_and_nodes_def
        opt_member_def)

text \<open>
  C8. Each helper issues one request, and its whole result (value and console entries)
  is a function of the backend's answer to that request: two runs that observe the
  same answer give the same result.
\<close>

theorem fetches_determined_by_response:
  "(net getPosts_request = net' getPosts_request \<longrightarrow> getPosts net = getPosts net')
   \<and> (net generateStaticParams_request = net' generateStaticParams_request \<longrightarrow>
        generateStaticParams net = generateStaticParams net')
   \<and> (net (getPost_request slug (Revalidate 60)) = net' (getPost_request slug (Revalidate 60)) \<longrightarrow>
        getPost net slug = getPost net' slug)
   \<and> (net (getPost_request slug NoStore) = net' (getPost_request slug NoStore) \<longrightarrow>
        getPost_debug net slug = getPost_debug net' slug)"
  by (simp add: getPosts_def generateStaticParams_def getPost_def getPost_debug_def fetch_def)

theorem fetches_determined_by_response_witness:
  "getPosts (content_service [hello_world]) =
     getPosts (\<lambda>req. if query req = GET_SINGLE_POST_QUERY then Inl (TypeError ''fetch failed'')
                      else content_service [hello_world] req)
   \<and> generateStaticParams (content_service [hello_world]) =
     generateStaticParams (\<lambda>req. if query req = GET_SINGLE_POST_QUERY then Inl (TypeError ''fetch failed'')
                      else content_service [hello_world] req)
   \<and> getPost (content_service [hello_world]) ''hello-world'' =
     getPost (\<lambda>req. if query req = GET_SINGLE_POST_QUERY then content_service [hello_world] req
                     else Inl (TypeError ''fetch failed'')) ''hello-world''
   \<and> getPost_debug (content_service [hello_world]) ''hello-world'' =
     getPost_debug (\<lambda>req. if query req = GET_SINGLE_POST_QUERY then content_service [hello_world] req
                     else Inl (TypeError ''fetch failed'')) ''hello-world''"
  using fetches_determined_by_response
          [where net = "content_service [hello_world]"
             and net' = "\<lambda>req. if query req = GET_SINGLE_POST_QUERY then Inl (TypeError ''fetch failed'')
                      else content_service [hello_world] req"]
        fetches_determined_by_response
          [where net = "content_service [hello_world]"
             and net' = "\<lambda>req. if query req = GET_SINGLE_POST_QUERY then content_service [hello_world] req
                     else Inl (TypeError ''fetch failed'')"
             and slug = "''hello-world''"]
  by (simp add: getPosts_request_def generateStaticParams_request_def getPost_request_def
        post_to_def GET_POSTS_QUERY_def GET_POST_SLUGS_QUERY_def GET_SINGLE_POST_QUERY_def)

end
